theory Spec2Isabelle
  imports Main "HOL-Library.Sublist"
begin

section \<open>Go values: errors, panics and formatted strings\<close>

text \<open>
  The Java language helper of the CLI (package \<open>langs\<close>) is embedded function by
  function. A Go \<open>error\<close> is a value holding its message; a nil error is \<open>None\<close>.
  A function with several results returns a tuple, exactly as the source does, so that
  a result such as \<open>("", "", nil)\<close> stays visible. A run-time panic ends the process
  and is an outcome of its own.
\<close>

datatype error = errors_New string

fun Error_text :: "error \<Rightarrow> string" where
  "Error_text (errors_New m) = m"

datatype panic = NilDereference | IndexOutOfRange

datatype 'a outcome = Return 'a | Panic panic

text \<open>
  \<open>fmt.Sprintf\<close> for the verbs the source uses: \<open>%s\<close> on a string, \<open>%v\<close> on an
  error (a nil error prints \<open><nil>\<close>) and \<open>%d\<close> on an int. Other pairings of verb
  and operand, and operands left over at the end of the format, do not occur in the
  source; the first are only marked, the second dropped.
\<close>

datatype arg = S string | E "error option" | I int

definition digit_char :: "nat \<Rightarrow> char" where
  "digit_char n = ''0123456789'' ! n"

fun decimal :: "nat \<Rightarrow> string" where
  "decimal n = (if n < 10 then [digit_char n] else decimal (n div 10) @ [digit_char (n mod 10)])"

definition itoa :: "int \<Rightarrow> string" where
  "itoa i = (if i < 0 then CHR ''-'' # decimal (nat (- i)) else decimal (nat i))"

fun fmt_verb :: "char \<Rightarrow> arg \<Rightarrow> string" where
  "fmt_verb c (S s) = (if c = CHR ''s'' \<or> c = CHR ''v'' then s else ''%!'' @ [c])"
| "fmt_verb c (E None) = (if c = CHR ''v'' then ''<nil>'' else ''%!'' @ [c])"
| "fmt_verb c (E (Some e)) = (if c = CHR ''v'' \<or> c = CHR ''s'' then Error_text e else ''%!'' @ [c])"
| "fmt_verb c (I n) = (if c = CHR ''d'' \<or> c = CHR ''v'' then itoa n else ''%!'' @ [c])"

fun Sprintf :: "string \<Rightarrow> arg list \<Rightarrow> string" where
  "Sprintf [] args = []"
| "Sprintf [c] args = (if c = CHR ''%'' then ''%!(NOVERB)'' else [c])"
| "Sprintf (c # d # fmt) args =
     (if c \<noteq> CHR ''%'' then c # Sprintf (d # fmt) args
      else if d = CHR ''%'' then CHR ''%'' # Sprintf fmt args
      else (case args of
              [] \<Rightarrow> ''%!'' @ [d] @ ''(MISSING)'' @ Sprintf fmt []
            | a # as \<Rightarrow> fmt_verb d a @ Sprintf fmt as))"

definition fmt_Errorf :: "string \<Rightarrow> arg list \<Rightarrow> error" where
  "fmt_Errorf fmt args = errors_New (Sprintf fmt args)"

section \<open>The world outside the package\<close>

text \<open>
  The helper reads environment variables, fetches two URLs and hands the bodies to the
  XML and JSON decoders of the standard library. None of that is code of the package,
  so it is a parameter of the model: a \<open>world\<close> fixes what each call returns.

  \<open>client_Get\<close> returns Go's pair \<open>(resp, err)\<close>: a transport failure is
  \<open>(None, Some e)\<close>, since \<open>http.Client.Get\<close> returns a nil response with its error.
  \<open>Body\<close> is what \<open>ioutil.ReadAll(resp.Body)\<close> returns.
\<close>

record Response =
  StatusCode :: int
  Body :: "string \<times> error option"

text \<open>The struct \<open>ParsedResponse\<close> of \<open>parseMavenResponse\<close>, with its nested structs.\<close>

record Versions =
  Versions_Text :: string
  Version :: "string list"

record Versioning =
  Versioning_Text :: string
  Latest :: string
  Release :: string
  Versions :: Versions
  LastUpdated :: string

record ParsedResponse =
  XMLName :: string
  Text :: string
  GroupId :: string
  ArtifactId :: string
  Versioning :: Versioning

text \<open>
  The struct \<open>parsedResponse\<close> of \<open>parseBintrayResponse\<close>. Its one field, \<open>Version\<close>
  in the source, goes by its JSON name here, since \<open>ParsedResponse\<close> has a \<open>Version\<close>
  already.
\<close>

record parsedResponse =
  latest_version :: string

text \<open>What the helper uses of a parsed \<open>url.URL\<close>: its \<open>Hostname()\<close> and \<open>Port()\<close>.\<close>

record URL =
  Hostname :: string
  Port :: string

record world =
  Getenv :: "string \<Rightarrow> string"
  client_Get :: "string \<Rightarrow> bool \<Rightarrow> Response option \<times> error option"
  xml_Unmarshal :: "string \<Rightarrow> ParsedResponse \<Rightarrow> ParsedResponse \<times> error option"
  json_Unmarshal :: "string \<Rightarrow> parsedResponse list \<Rightarrow> parsedResponse list \<times> error option"
  url_Parse :: "string \<Rightarrow> error + URL"
  ErrBoilerplateExists :: error

text \<open>
  \<open>ErrBoilerplateExists\<close> is a variable of the package declared outside the given
  sources; it is taken as a parameter too.
\<close>

section \<open>The helper and the process state\<close>

record JavaLangHelper =
  version :: string
  latestFdkVersion :: string
  pomType :: string

text \<open>
  A path is the list of its components, so \<open>filepath.Join\<close> is concatenation. The file
  system holds the regular files with their contents and the directories.
\<close>

type_synonym path = "string list"

record filesystem =
  files :: "path \<Rightarrow> string option"
  dirs :: "path set"

text \<open>
  The state of the process: the helper, the file system, and the log of the HTTP
  requests made so far (URL and \<open>InsecureSkipVerify\<close>), which is how "no network
  query" is stated.
\<close>

record state =
  helper :: JavaLangHelper
  fs :: filesystem
  requests :: "(string \<times> bool) list"

section \<open>Version resolution\<close>

text \<open>\<open>var response ParsedResponse\<close>: the zero value the decoder fills in.\<close>

definition zero_ParsedResponse :: ParsedResponse where
  "zero_ParsedResponse =
     \<lparr>XMLName = [], Text = [], GroupId = [], ArtifactId = [],
      Versioning = \<lparr>Versioning_Text = [], Latest = [], Release = [],
                     Versions = \<lparr>Versions_Text = [], Version = []\<rparr>,
                     LastUpdated = []\<rparr>\<rparr>"

definition parseMavenResponse :: "world \<Rightarrow> string \<Rightarrow> string \<times> error option" where
  "parseMavenResponse w data =
     (let (response, err) = xml_Unmarshal w data zero_ParsedResponse
      in if err \<noteq> None then ([], err)
         else if length (Version (Versions (Versioning response))) = 0
           then ([], Some (fmt_Errorf ''Maven response is not valid'' []))
         else (Latest (Versioning response), None))"

text \<open>
  \<open>parsedResp[0]\<close> is read without a length check: on a slice of length 0 the index
  expression panics.
\<close>

definition parseBintrayResponse :: "world \<Rightarrow> string \<Rightarrow> (string \<times> error option) outcome" where
  "parseBintrayResponse w data =
     (let (parsedResp, err) = json_Unmarshal w data [\<lparr>latest_version = []\<rparr>]
      in if err \<noteq> None then Return ([], err)
         else (case parsedResp of
                 [] \<Rightarrow> Panic IndexOutOfRange
               | r # _ \<Rightarrow> Return (latest_version r, None)))"

text \<open>
  \<open>getURLResponse\<close>: \<open>defer resp.Body.Close()\<close> stands before the check of \<open>err\<close>, and
  evaluating \<open>resp.Body\<close> on a nil \<open>resp\<close> panics. The nil byte slice is \<open>[]\<close>.
\<close>

definition getURLResponse ::
  "world \<Rightarrow> string \<Rightarrow> bool \<Rightarrow> (string \<times> bool) list \<Rightarrow>
     ((string \<times> error option) \<times> (string \<times> bool) list) outcome" where
  "getURLResponse w url inSecureSkipVerify log =
     (let (resp, err) = client_Get w url inSecureSkipVerify;
          log' = log @ [(url, inSecureSkipVerify)]
      in case resp of
           None \<Rightarrow> Panic NilDereference
         | Some r \<Rightarrow>
             if err \<noteq> None \<or> StatusCode r \<noteq> 200
             then Return (([], Some (fmt_Errorf
                    ''Failed to fetch response from URL %s Error: %v Status: %d''
                    [S url, E err, I (StatusCode r)])), log')
             else (case Body r of
                     (data, Some e) \<Rightarrow> Return (([], Some e), log')
                   | (data, None) \<Rightarrow> Return ((data, None), log')))"

text \<open>
  \<open>getFDKLatestFromURL\<close>. The variable \<open>err\<close> is the error of the last fetch; the
  parse errors are the local \<open>e1\<close>. The final \<open>return "", "", err\<close> therefore returns
  the error of the second fetch, whatever the second parse said.
\<close>

definition getFDKLatestFromURL ::
  "world \<Rightarrow> string \<Rightarrow> string \<Rightarrow> (string \<times> bool) list \<Rightarrow>
     ((string \<times> string \<times> error option) \<times> (string \<times> bool) list) outcome" where
  "getFDKLatestFromURL w comURL bintrayURL log =
     (case getURLResponse w comURL False log of
        Panic p \<Rightarrow> Panic p
      | Return ((data, err), log1) \<Rightarrow>
          if err = None \<and> snd (parseMavenResponse w data) = None
          then Return ((fst (parseMavenResponse w data), ''maven'', None), log1)
          else (case getURLResponse w bintrayURL True log1 of
                  Panic p \<Rightarrow> Panic p
                | Return ((data2, err2), log2) \<Rightarrow>
                    if err2 = None
                    then (case parseBintrayResponse w data2 of
                            Panic p \<Rightarrow> Panic p
                          | Return (vers, e1) \<Rightarrow>
                              if e1 = None then Return ((vers, ''bintray'', e1), log2)
                              else Return (([], [], err2), log2))
                    else Return (([], [], err2), log2)))"

definition bintrayVersionURL :: string where
  "bintrayVersionURL =
     ''https://api.bintray.com/search/packages/maven?repo=fnproject&g=com.fnproject.fn&a=fdk''"

definition mavenVersionUrl :: string where
  "mavenVersionUrl = ''https://repo1.maven.org/maven2/com/fnproject/fn/fdk/maven-metadata.xml''"

definition versionEnv :: string where
  "versionEnv = ''FN_JAVA_FDK_VERSION''"

definition fetchError :: error where
  "fetchError = fmt_Errorf
     ''Failed to fetch latest Java FDK javaVersion. Check your network settings or manually override the javaVersion by setting %s''
     [S versionEnv]"

text \<open>
  \<open>GetLatestFDKVersion\<close>: the cached value is looked at first, the environment
  variable second, the network last.
\<close>

definition GetLatestFDKVersion :: "world \<Rightarrow> state \<Rightarrow> ((string \<times> error option) \<times> state) outcome" where
  "GetLatestFDKVersion w st =
     (let h = helper st in
      if latestFdkVersion h \<noteq> [] then Return ((latestFdkVersion h, None), st)
      else
        let vers = Getenv w versionEnv in
        if vers \<noteq> [] then Return ((vers, None), st)
        else (case getFDKLatestFromURL w mavenVersionUrl bintrayVersionURL (requests st) of
                Panic p \<Rightarrow> Panic p
              | Return ((vers', pType, err), log) \<Rightarrow>
                  if err \<noteq> None
                  then Return (([], Some fetchError), st\<lparr>requests := log\<rparr>)
                  else Return ((vers', None),
                         st\<lparr>helper := h\<lparr>latestFdkVersion := vers', pomType := pType\<rparr>,
                            requests := log\<rparr>)))"

section \<open>Boilerplate generation\<close>

text \<open>The four string constants of the source, character for character.\<close>

definition mavenPomFile :: string where
  \<open>mavenPomFile =
''<?xml version="1.0" encoding="UTF-8"?>
<project xmlns="http://maven.apache.org/POM/4.0.0"
         xmlns:xsi="http://www.w3.org/2001/XMLSchema-instance"
         xsi:schemaLocation="http://maven.apache.org/POM/4.0.0 http://maven.apache.org/xsd/maven-4.0.0.xsd">
    <modelVersion>4.0.0</modelVersion>
    <properties>
        <project.build.sourceEncoding>UTF-8</project.build.sourceEncoding>
        <fdk.version>%s</fdk.version>
    </properties>
    <groupId>com.example.fn</groupId>
    <artifactId>hello</artifactId>
    <version>1.0.0</version>

    <dependencies>
        <dependency>
            <groupId>com.fnproject.fn</groupId>
            <artifactId>api</artifactId>
            <version>${fdk.version}</version>
        </dependency>
        <dependency>
            <groupId>com.fnproject.fn</groupId>
            <artifactId>testing-core</artifactId>
            <version>${fdk.version}</version>
            <scope>test</scope>
        </dependency>
        <dependency>
            <groupId>com.fnproject.fn</groupId>
            <artifactId>testing-junit4</artifactId>
            <version>${fdk.version}</version>
            <scope>test</scope>
        </dependency>
        <dependency>
            <groupId>junit</groupId>
            <artifactId>junit</artifactId>
            <version>4.12</version>
            <scope>test</scope>
        </dependency>
    </dependencies>

    <build>
        <plugins>
            <plugin>
                <groupId>org.apache.maven.plugins</groupId>
                <artifactId>maven-compiler-plugin</artifactId>
                <version>3.3</version>
                <configuration>
                    <source>%s</source>
                    <target>%s</target>
                </configuration>
            </plugin>
            <plugin>
                 <groupId>org.apache.maven.plugins</groupId>
                 <artifactId>maven-surefire-plugin</artifactId>
                 <version>2.22.1</version>
                 <configuration>
                     <useSystemClassLoader>false</useSystemClassLoader>
                 </configuration>
            </plugin>
        </plugins>
    </build>
</project>
''\<close>

definition bintrayPomFile :: string where
  \<open>bintrayPomFile =
''<?xml version="1.0" encoding="UTF-8"?>
<project xmlns="http://maven.apache.org/POM/4.0.0"
         xmlns:xsi="http://www.w3.org/2001/XMLSchema-instance"
         xsi:schemaLocation="http://maven.apache.org/POM/4.0.0 http://maven.apache.org/xsd/maven-4.0.0.xsd">
    <modelVersion>4.0.0</modelVersion>
    <properties>
        <project.build.sourceEncoding>UTF-8</project.build.sourceEncoding>
        <fdk.version>%s</fdk.version>
    </properties>
    <groupId>com.example.fn</groupId>
    <artifactId>hello</artifactId>
    <version>1.0.0</version>

	<repositories>
        <repository>
            <id>fn-release-repo</id>
            <url>https://dl.bintray.com/fnproject/fnproject</url>
            <releases>
                <enabled>true</enabled>
            </releases>
            <snapshots>
                <enabled>false</enabled>
            </snapshots>
        </repository>
    </repositories>

    <dependencies>
        <dependency>
            <groupId>com.fnproject.fn</groupId>
            <artifactId>api</artifactId>
            <version>${fdk.version}</version>
        </dependency>
        <dependency>
            <groupId>com.fnproject.fn</groupId>
            <artifactId>testing-core</artifactId>
            <version>${fdk.version}</version>
            <scope>test</scope>
        </dependency>
        <dependency>
            <groupId>com.fnproject.fn</groupId>
            <artifactId>testing-junit4</artifactId>
            <version>${fdk.version}</version>
            <scope>test</scope>
        </dependency>
        <dependency>
            <groupId>junit</groupId>
            <artifactId>junit</artifactId>
            <version>4.12</version>
            <scope>test</scope>
        </dependency>
    </dependencies>

    <build>
        <plugins>
            <plugin>
                <groupId>org.apache.maven.plugins</groupId>
                <artifactId>maven-compiler-plugin</artifactId>
                <version>3.3</version>
                <configuration>
                    <source>%s</source>
                    <target>%s</target>
                </configuration>
            </plugin>
            <plugin>
                 <groupId>org.apache.maven.plugins</groupId>
                 <artifactId>maven-surefire-plugin</artifactId>
                 <version>2.22.1</version>
                 <configuration>
                     <useSystemClassLoader>false</useSystemClassLoader>
                 </configuration>
            </plugin>
        </plugins>
    </build>
</project>
''\<close>

definition helloJavaSrcBoilerplate :: string where
  \<open>helloJavaSrcBoilerplate =
''package com.example.fn;

public class HelloFunction {

    public String handleRequest(String input) {
        String name = (input == null || input.isEmpty()) ? "world"  : input;

        System.out.println("Inside Java Hello World function"); 
        return "Hello, " + name + "!";
    }

}''\<close>

definition helloJavaTestBoilerplate :: string where
  \<open>helloJavaTestBoilerplate =
''package com.example.fn;

import com.fnproject.fn.testing.*;
import org.junit.*;

import static org.junit.Assert.*;

public class HelloFunctionTest {

    @Rule
    public final FnTestingRule testing = FnTestingRule.createDefault();

    @Test
    public void shouldReturnGreeting() {
        testing.givenEvent().enqueue();
        testing.thenRun(HelloFunction.class, "handleRequest");

        FnResult result = testing.getOnlyResult();
        assertEquals("Hello, world!", result.getBodyAsString());
    }

}''\<close>

definition pomFileContent :: "string \<Rightarrow> string \<Rightarrow> string \<Rightarrow> string" where
  "pomFileContent APIversion javaVersion pType =
     (if pType = ''maven''
      then Sprintf mavenPomFile [S APIversion, S javaVersion, S javaVersion]
      else Sprintf bintrayPomFile [S APIversion, S javaVersion, S javaVersion])"

text \<open>
  Modelled from the spec: the helper \<open>exists\<close> of the package, which
  \<open>GenerateBoilerplate\<close> calls and the given sources do not contain. By the spec it
  tells whether the manifest file already exists at the path.
\<close>

definition exists :: "filesystem \<Rightarrow> path \<Rightarrow> bool" where
  "exists f p = (files f p \<noteq> None \<or> p \<in> dirs f)"

text \<open>
  The two file operations of the standard library, on the file system above (file
  modes are left out). \<open>ioutil.WriteFile\<close> fails on a directory and where the parent
  directory is missing; \<open>os.MkdirAll\<close> creates the directory with all its parents and
  fails where one of them is a regular file.
\<close>

definition ioutil_WriteFile :: "path \<Rightarrow> string \<Rightarrow> filesystem \<Rightarrow> error option \<times> filesystem" where
  "ioutil_WriteFile p data f =
     (if p \<in> dirs f then (Some (errors_New ''is a directory''), f)
      else if butlast p \<notin> dirs f then (Some (errors_New ''no such file or directory''), f)
      else (None, f\<lparr>files := (files f)(p \<mapsto> data)\<rparr>))"

definition os_MkdirAll :: "path \<Rightarrow> filesystem \<Rightarrow> error option \<times> filesystem" where
  "os_MkdirAll p f =
     (if list_ex (\<lambda>q. files f q \<noteq> None) (prefixes p)
      then (Some (errors_New ''not a directory''), f)
      else (None, f\<lparr>dirs := dirs f \<union> set (prefixes p)\<rparr>))"

text \<open>The closure \<open>mkDirAndWriteFile\<close> of \<open>GenerateBoilerplate\<close>.\<close>

definition mkDirAndWriteFile ::
  "path \<Rightarrow> path \<Rightarrow> string \<Rightarrow> string \<Rightarrow> filesystem \<Rightarrow> error option \<times> filesystem" where
  "mkDirAndWriteFile path dir filename content f =
     (let fullPath = path @ dir in
      case os_MkdirAll fullPath f of
        (Some e, f') \<Rightarrow> (Some e, f')
      | (None, f') \<Rightarrow> ioutil_WriteFile (fullPath @ [filename]) content f')"

definition GenerateBoilerplate :: "world \<Rightarrow> path \<Rightarrow> state \<Rightarrow> (error option \<times> state) outcome" where
  "GenerateBoilerplate w path st =
     (let pathToPomFile = path @ [''pom.xml''] in
      if exists (fs st) pathToPomFile then Return (Some (ErrBoilerplateExists w), st)
      else
        case GetLatestFDKVersion w st of
          Panic p \<Rightarrow> Panic p
        | Return ((apiVersion, err), st1) \<Rightarrow>
            if err \<noteq> None then Return (err, st1)
            else
              let h = helper st1 in
              case ioutil_WriteFile pathToPomFile
                     (pomFileContent apiVersion (version h) (pomType h)) (fs st1) of
                (Some e, f1) \<Rightarrow> Return (Some e, st1\<lparr>fs := f1\<rparr>)
              | (None, f1) \<Rightarrow>
                  (case mkDirAndWriteFile path
                          [''src'', ''main'', ''java'', ''com'', ''example'', ''fn'']
                          ''HelloFunction.java'' helloJavaSrcBoilerplate f1 of
                     (Some e, f2) \<Rightarrow> Return (Some e, st1\<lparr>fs := f2\<rparr>)
                   | (None, f2) \<Rightarrow>
                       (case mkDirAndWriteFile path
                               [''src'', ''test'', ''java'', ''com'', ''example'', ''fn'']
                               ''HelloFunctionTest.java'' helloJavaTestBoilerplate f2 of
                          (err3, f3) \<Rightarrow> Return (err3, st1\<lparr>fs := f3\<rparr>))))"

section \<open>The build stage\<close>

text \<open>
  \<open>strings.Replace(s, old, new, -1)\<close> for a non-empty \<open>old\<close> (the source calls it with
  \<open>","\<close>): every occurrence, leftmost first and not overlapping, is replaced.
\<close>

function strings_Replace_all :: "string \<Rightarrow> string \<Rightarrow> string \<Rightarrow> string" where
  "strings_Replace_all s old new =
     (if old = [] \<or> s = [] then s
      else if prefix old s then new @ strings_Replace_all (drop (length old) s) old new
      else hd s # strings_Replace_all (tl s) old new)"
  by pat_completeness auto
termination
  by (relation "measure (\<lambda>(s, old, new). length s)") auto

definition mavenOpts :: "world \<Rightarrow> string" where
  "mavenOpts w =
     (case url_Parse w (Getenv w ''http_proxy'') of
        Inr parsedURL \<Rightarrow>
          Sprintf ''-Dhttp.proxyHost=%s '' [S (Hostname parsedURL)] @
          Sprintf ''-Dhttp.proxyPort=%s '' [S (Port parsedURL)]
      | Inl err \<Rightarrow> []) @
     (case url_Parse w (Getenv w ''https_proxy'') of
        Inr parsedURL \<Rightarrow>
          Sprintf ''-Dhttps.proxyHost=%s '' [S (Hostname parsedURL)] @
          Sprintf ''-Dhttps.proxyPort=%s '' [S (Port parsedURL)]
      | Inl err \<Rightarrow> []) @
     (let nonProxyHost = Getenv w ''no_proxy'' in
      Sprintf ''-Dhttp.nonProxyHosts=%s '' [S (strings_Replace_all nonProxyHost '','' ''|'')]) @
     ''-Dmaven.repo.local=/usr/share/maven/ref/repository''"

definition DockerfileBuildCmds :: "world \<Rightarrow> string list" where
  \<open>DockerfileBuildCmds w =
     [Sprintf ''ENV MAVEN_OPTS %s'' [S (mavenOpts w)],
      ''ADD pom.xml /function/pom.xml'',
      ''RUN ["mvn", "package", "dependency:copy-dependencies", "-DincludeScope=runtime", '' @
        ''"-DskipTests=true", "-Dmdep.prependGroupId=true", "-DoutputDirectory=target", "--fail-never"]'',
      ''ADD src /function/src'',
      ''RUN ["mvn", "package"]'']\<close>

section \<open>Reading the version back from a manifest\<close>

text \<open>
  The package writes manifests and never reads one. "Re-reading the manifest's embedded
  version field" is stated with the reader below: the text between the first
  \<open><fdk.version>\<close> and the first \<open></fdk.version>\<close> after it.
\<close>

fun after_tag :: "string \<Rightarrow> string \<Rightarrow> string option" where
  "after_tag tag [] = None"
| "after_tag tag (c # cs) =
     (if prefix tag (c # cs) then Some (drop (length tag) (c # cs)) else after_tag tag cs)"

fun before_tag :: "string \<Rightarrow> string \<Rightarrow> string option" where
  "before_tag tag [] = None"
| "before_tag tag (c # cs) =
     (if prefix tag (c # cs) then Some [] else map_option ((#) c) (before_tag tag cs))"

definition fdk_version_field :: "string \<Rightarrow> string option" where
  "fdk_version_field content =
     (case after_tag ''<fdk.version>'' content of
        None \<Rightarrow> None
      | Some rest \<Rightarrow> before_tag ''</fdk.version>'' rest)"

text \<open>
  The manifest a call of \<open>GenerateBoilerplate\<close> leaves at a path, when the call
  returned a nil error.
\<close>

definition manifest_after :: "(error option \<times> state) outcome \<Rightarrow> path \<Rightarrow> string option" where
  "manifest_after r p =
     (case r of
        Return (None, st) \<Rightarrow> files (fs st) p
      | Return (Some e, st) \<Rightarrow> None
      | Panic x \<Rightarrow> None)"

section \<open>Test doubles\<close>

text \<open>
  Concrete worlds for the worked examples. The decoders are stubs that give, on the
  few inputs used below, what the library gives on them: \<open>json.Unmarshal\<close> of \<open>[]\<close>
  into a slice leaves a slice of length 0, and \<open>url.Parse\<close> rejects a port that is
  not a number.
\<close>

definition stub_xml_body :: string where
  "stub_xml_body = ''<metadata><versioning><latest>1.0.198</latest><versions><version>1.0.197</version><version>1.0.198</version></versions></versioning></metadata>''"

definition stub_xml_Unmarshal :: "string \<Rightarrow> ParsedResponse \<Rightarrow> ParsedResponse \<times> error option" where
  "stub_xml_Unmarshal data r =
     (if data = stub_xml_body
      then (r\<lparr>XMLName := ''metadata'',
              Versioning := \<lparr>Versioning_Text = [], Latest = ''1.0.198'', Release = [],
                Versions = \<lparr>Versions_Text = [], Version = [''1.0.197'', ''1.0.198'']\<rparr>,
                LastUpdated = []\<rparr>\<rparr>, None)
      else (r, Some (errors_New ''EOF'')))"

definition stub_json_Unmarshal ::
  "string \<Rightarrow> parsedResponse list \<Rightarrow> parsedResponse list \<times> error option" where
  \<open>stub_json_Unmarshal data s =
     (if data = ''[{"latest_version":"2.3.1"}]'' then ([\<lparr>latest_version = ''2.3.1''\<rparr>], None)
      else if data = ''[]'' then ([], None)
      else (s, Some (errors_New ''invalid character looking for beginning of value'')))\<close>

definition stub_url_Parse :: "string \<Rightarrow> error + URL" where
  "stub_url_Parse rawURL =
     (if rawURL = [] then Inr \<lparr>Hostname = [], Port = []\<rparr>
      else if rawURL = ''http://proxy.example.com:3128''
        then Inr \<lparr>Hostname = ''proxy.example.com'', Port = ''3128''\<rparr>
      else if rawURL = ''https://secure.example.com:3129''
        then Inr \<lparr>Hostname = ''secure.example.com'', Port = ''3129''\<rparr>
      else Inl (errors_New ''invalid port after host''))"

definition stub_world ::
  "(string \<Rightarrow> string) \<Rightarrow> (string \<Rightarrow> bool \<Rightarrow> Response option \<times> error option) \<Rightarrow> world" where
  "stub_world env net =
     \<lparr>Getenv = env, client_Get = net, xml_Unmarshal = stub_xml_Unmarshal,
      json_Unmarshal = stub_json_Unmarshal, url_Parse = stub_url_Parse,
      ErrBoilerplateExists = errors_New ''Function boilerplate already exists''\<rparr>"

text \<open>Environments: nothing set; only the override set.\<close>

definition env_unset :: "string \<Rightarrow> string" where
  "env_unset name = []"

definition env_override :: "string \<Rightarrow> string \<Rightarrow> string" where
  "env_override V name = (if name = versionEnv then V else [])"

text \<open>Networks: every connection refused; a reply with a status and a body.\<close>

definition net_down :: "string \<Rightarrow> bool \<Rightarrow> Response option \<times> error option" where
  "net_down url insecure = (None, Some (errors_New ''dial tcp: connection refused''))"

definition reply :: "int \<Rightarrow> string \<Rightarrow> Response option \<times> error option" where
  "reply status body = (Some \<lparr>StatusCode = status, Body = (body, None)\<rparr>, None)"

definition env_proxies :: "string \<Rightarrow> string \<Rightarrow> string \<Rightarrow> string \<Rightarrow> string" where
  "env_proxies http https no name =
     (if name = ''http_proxy'' then http
      else if name = ''https_proxy'' then https
      else if name = ''no_proxy'' then no
      else [])"

definition fresh_helper :: JavaLangHelper where
  "fresh_helper = \<lparr>version = ''11'', latestFdkVersion = [], pomType = []\<rparr>"

text \<open>File systems: a directory \<open>fn\<close> that is empty, and one that holds a \<open>pom.xml\<close>.\<close>

definition empty_dir :: filesystem where
  "empty_dir = \<lparr>files = (\<lambda>p. None), dirs = {[], [''fn'']}\<rparr>"

definition dir_with_pom :: filesystem where
  "dir_with_pom = \<lparr>files = [[''fn'', ''pom.xml''] \<mapsto> ''<project/>''], dirs = {[], [''fn'']}\<rparr>"

definition fresh_state :: state where
  "fresh_state = \<lparr>helper = fresh_helper, fs = empty_dir, requests = []\<rparr>"

section \<open>Evaluation rules\<close>

text \<open>
  The recursive equations with an \<open>if\<close> on their right-hand side are taken out of
  the simplifier; formatting and scanning of the long manifest templates go through
  rules whose conditions look at one or two characters only.
\<close>

declare strings_Replace_all.simps [simp del]
declare decimal.simps [simp del]

lemma Sprintf_plain:
  "c \<noteq> CHR ''%'' \<Longrightarrow> Sprintf (c # d # fmt) args = c # Sprintf (d # fmt) args"
  by simp

lemma Sprintf_verb:
  "d \<noteq> CHR ''%'' \<Longrightarrow> Sprintf (CHR ''%'' # d # fmt) (a # as) = fmt_verb d a @ Sprintf fmt as"
  by simp

declare Sprintf.simps(3) [simp del]

lemmas Sprintf_eval = Sprintf_plain Sprintf_verb

lemma after_tag_skip1: "c \<noteq> t \<Longrightarrow> after_tag (t # tag) (c # cs) = after_tag (t # tag) cs"
  by simp

lemma after_tag_skip2:
  "c2 \<noteq> t2 \<Longrightarrow> after_tag (t # t2 # tag) (c # c2 # cs) = after_tag (t # t2 # tag) (c2 # cs)"
  by simp

lemma after_open_hit:
  "after_tag ''<fdk.version>''
     (CHR ''<'' # CHR ''f'' # CHR ''d'' # CHR ''k'' # CHR ''.'' # CHR ''v'' # CHR ''e'' #
      CHR ''r'' # CHR ''s'' # CHR ''i'' # CHR ''o'' # CHR ''n'' # CHR ''>'' # rest) = Some rest"
  by simp

lemmas after_tag_eval = after_tag_skip1 after_tag_skip2 after_open_hit

section \<open>Version resolution: the claims\<close>

text \<open>The error of a fetch that is answered 404, with its formatted message.\<close>

lemma getURLResponse_not_found:
  "getURLResponse (stub_world env_unset (\<lambda>url insecure. reply 404 [])) ''http://x'' False []
     = Return (([], Some (errors_New
         ''Failed to fetch response from URL http://x Error: <nil> Status: 404'')),
         [(''http://x'', False)])"
  by (simp add: getURLResponse_def stub_world_def reply_def fmt_Errorf_def Sprintf_eval
      itoa_def decimal.simps digit_char_def)

text \<open>
  C1. Claimed: with the override unset, a failed primary query and a failed secondary
  query (transport error, status other than 2xx, or a body that does not parse),
  \<open>GetLatestFDKVersion\<close> returns no version and the error that names
  \<open>FN_JAVA_FDK_VERSION\<close>. The code does not: when the primary answers 404 and the
  secondary answers 200 with a body the JSON decoder rejects, the call returns the
  empty version with a nil error, having made both requests.
\<close>

theorem unparseable_secondary_returns_no_error:
  \<open>GetLatestFDKVersion
     (stub_world env_unset
        (\<lambda>url insecure. if url = mavenVersionUrl then reply 404 [] else reply 200 ''<html>gone</html>''))
     fresh_state
   = Return (([], None),
       fresh_state\<lparr>requests := [(mavenVersionUrl, False), (bintrayVersionURL, True)]\<rparr>)\<close>
  by (simp add: GetLatestFDKVersion_def getFDKLatestFromURL_def getURLResponse_def
      parseBintrayResponse_def stub_world_def stub_json_Unmarshal_def env_unset_def reply_def
      fresh_state_def fresh_helper_def Let_def mavenVersionUrl_def bintrayVersionURL_def)

text \<open>
  The same in every world: whenever the second fetch succeeds and its body does not
  decode, the final \<open>return\<close> hands back the nil error of the fetch.
\<close>

lemma undecodable_secondary_returns_no_error:
  assumes "latestFdkVersion (helper st) = []" and "Getenv w versionEnv = []"
    and "client_Get w mavenVersionUrl False = (Some r1, e1)" and "StatusCode r1 \<noteq> 200"
    and "client_Get w bintrayVersionURL True = (Some r2, None)"
    and "StatusCode r2 = 200" and "Body r2 = (data, None)"
    and "json_Unmarshal w data [\<lparr>latest_version = []\<rparr>] = (ds, Some e)"
  shows "GetLatestFDKVersion w st =
           Return (([], None),
             st\<lparr>helper := (helper st)\<lparr>latestFdkVersion := [], pomType := []\<rparr>,
                requests := requests st @ [(mavenVersionUrl, False), (bintrayVersionURL, True)]\<rparr>)"
  using assms
  by (simp add: GetLatestFDKVersion_def getFDKLatestFromURL_def getURLResponse_def
      parseBintrayResponse_def Let_def)

text \<open>
  Where both fetches fail with a status other than 200 the claimed error is returned,
  and its message names the variable.
\<close>

lemma fetchError_names_override:
  "Error_text fetchError =
     ''Failed to fetch latest Java FDK javaVersion. Check your network settings or manually override the javaVersion by setting FN_JAVA_FDK_VERSION''"
  by (simp add: fetchError_def fmt_Errorf_def versionEnv_def Sprintf_eval)

lemma both_statuses_fail:
  assumes "latestFdkVersion (helper st) = []" and "Getenv w versionEnv = []"
    and "client_Get w mavenVersionUrl False = (Some r1, e1)" and "StatusCode r1 \<noteq> 200"
    and "client_Get w bintrayVersionURL True = (Some r2, e2)" and "StatusCode r2 \<noteq> 200"
  shows "GetLatestFDKVersion w st =
           Return (([], Some fetchError),
             st\<lparr>requests := requests st @ [(mavenVersionUrl, False), (bintrayVersionURL, True)]\<rparr>)"
  using assms
  by (simp add: GetLatestFDKVersion_def getFDKLatestFromURL_def getURLResponse_def Let_def)

text \<open>
  C2. Claimed: for every state, cached value included, a non-empty override \<open>V\<close> is
  returned with no error, no network query and the cache unchanged. The code looks at
  the cache first. Proved instead: with a non-empty override the call returns with a nil
  error and leaves the whole state as it was (no request, cache unchanged); the value
  is \<open>V\<close> when nothing is cached and the cached value otherwise.
\<close>

theorem override_returned_unless_cached:
  assumes "Getenv w versionEnv = V" and "V \<noteq> []"
  shows "GetLatestFDKVersion w st =
           Return ((if latestFdkVersion (helper st) = [] then V else latestFdkVersion (helper st),
                    None), st)"
  using assms by (simp add: GetLatestFDKVersion_def Let_def)

theorem override_returned_unless_cached_witness:
  "Getenv (stub_world (env_override ''2.0.0'') net_down) versionEnv = ''2.0.0''
   \<and> ''2.0.0'' \<noteq> ([] :: string)
   \<and> GetLatestFDKVersion (stub_world (env_override ''2.0.0'') net_down) fresh_state
       = Return ((''2.0.0'', None), fresh_state)"
  using override_returned_unless_cached
    [of "stub_world (env_override ''2.0.0'') net_down" "''2.0.0''" fresh_state]
  by (simp add: stub_world_def env_override_def fresh_state_def fresh_helper_def)

text \<open>The claim as stated fails: a cached \<open>1.0.0\<close> wins over the override \<open>2.0.0\<close>.\<close>

theorem override_ignored_when_cached:
  "Getenv (stub_world (env_override ''2.0.0'') net_down) versionEnv = ''2.0.0''
   \<and> GetLatestFDKVersion (stub_world (env_override ''2.0.0'') net_down)
        (fresh_state\<lparr>helper := fresh_helper\<lparr>latestFdkVersion := ''1.0.0'', pomType := ''maven''\<rparr>\<rparr>)
       = Return ((''1.0.0'', None),
           fresh_state\<lparr>helper := fresh_helper\<lparr>latestFdkVersion := ''1.0.0'', pomType := ''maven''\<rparr>\<rparr>)"
  by (simp add: GetLatestFDKVersion_def stub_world_def env_override_def fresh_state_def
      fresh_helper_def)

text \<open>
  C3. With nothing cached and no override, a primary reply of status 200 whose body
  decodes to a document with at least one \<open>versioning/versions/version\<close> entry makes
  \<open>GetLatestFDKVersion\<close> return that document's \<open>versioning/latest\<close> with a nil error
  and cache it with \<open>pomType\<close> \<open>maven\<close>. The only request the call adds to the log is
  the primary one, so the secondary registry is not queried.
\<close>

theorem primary_success_skips_secondary:
  assumes "latestFdkVersion (helper st) = []"
    and "Getenv w versionEnv = []"
    and "client_Get w mavenVersionUrl False = (Some r, None)"
    and "StatusCode r = 200"
    and "Body r = (data, None)"
    and "xml_Unmarshal w data zero_ParsedResponse = (doc, None)"
    and "Version (Versions (Versioning doc)) \<noteq> []"
  shows "GetLatestFDKVersion w st =
           Return ((Latest (Versioning doc), None),
             st\<lparr>helper := (helper st)\<lparr>latestFdkVersion := Latest (Versioning doc),
                                      pomType := ''maven''\<rparr>,
                requests := requests st @ [(mavenVersionUrl, False)]\<rparr>)"
  using assms
  by (simp add: GetLatestFDKVersion_def getFDKLatestFromURL_def getURLResponse_def
      parseMavenResponse_def Let_def)

theorem primary_success_skips_secondary_witness:
  "latestFdkVersion (helper fresh_state) = []
   \<and> Getenv (stub_world env_unset (\<lambda>url insecure. if url = mavenVersionUrl then reply 200 stub_xml_body else net_down url insecure)) versionEnv = []
   \<and> GetLatestFDKVersion
        (stub_world env_unset (\<lambda>url insecure. if url = mavenVersionUrl then reply 200 stub_xml_body else net_down url insecure))
        fresh_state
       = Return ((''1.0.198'', None),
           fresh_state\<lparr>helper := fresh_helper\<lparr>latestFdkVersion := ''1.0.198'', pomType := ''maven''\<rparr>,
                       requests := [(mavenVersionUrl, False)]\<rparr>)"
proof -
  let ?w = "stub_world env_unset (\<lambda>url insecure. if url = mavenVersionUrl then reply 200 stub_xml_body else net_down url insecure)"
  let ?r = "\<lparr>StatusCode = 200, Body = (stub_xml_body, None)\<rparr>"
  let ?doc = "\<lparr>XMLName = ''metadata'', Text = [], GroupId = [], ArtifactId = [],
            Versioning = \<lparr>Versioning_Text = [], Latest = ''1.0.198'', Release = [],
                           Versions = \<lparr>Versions_Text = [], Version = [''1.0.197'', ''1.0.198'']\<rparr>,
                           LastUpdated = []\<rparr>\<rparr>"
  have 1: "latestFdkVersion (helper fresh_state) = []"
    by (simp add: fresh_state_def fresh_helper_def)
  have 2: "Getenv ?w versionEnv = []"
    by (simp add: stub_world_def env_unset_def)
  have 3: "client_Get ?w mavenVersionUrl False = (Some ?r, None)"
    by (simp add: stub_world_def reply_def)
  have 4: "StatusCode ?r = 200" by simp
  have 5: "Body ?r = (stub_xml_body, None)" by simp
  have 6: "xml_Unmarshal ?w stub_xml_body zero_ParsedResponse = (?doc, None)"
    by (simp add: stub_world_def stub_xml_Unmarshal_def zero_ParsedResponse_def)
  have 7: "Version (Versions (Versioning ?doc)) \<noteq> []" by simp
  from primary_success_skips_secondary [OF 1 2 3 4 5 6 7] 1 2
  show ?thesis by (simp add: fresh_state_def)
qed

text \<open>
  C4. Claimed: with no override and nothing cached, a failed primary query and a
  secondary reply of status 200 with the body \<open>[{"latest_version":"2.3.1"}]\<close> give
  \<open>2.3.1\<close> tagged \<open>bintray\<close>. The code does not when the primary fails by a
  transport error (the registry is unreachable): \<open>client.Get\<close> returns a nil response,
  and \<open>getURLResponse\<close> dereferences it in \<open>defer resp.Body.Close()\<close> before it looks
  at \<open>err\<close>. The process panics and the secondary registry is never asked.
\<close>

theorem unreachable_primary_panics:
  \<open>GetLatestFDKVersion
     (stub_world env_unset
        (\<lambda>url insecure. if url = mavenVersionUrl then net_down url insecure
                         else reply 200 ''[{"latest_version":"2.3.1"}]''))
     fresh_state
   = Panic NilDereference\<close>
  by (simp add: GetLatestFDKVersion_def getFDKLatestFromURL_def getURLResponse_def
      stub_world_def env_unset_def net_down_def fresh_state_def fresh_helper_def Let_def)

text \<open>The same in every world: a nil response from the first fetch ends the process.\<close>

lemma nil_response_panics:
  assumes "latestFdkVersion (helper st) = []" and "Getenv w versionEnv = []"
    and "client_Get w mavenVersionUrl False = (None, e)"
  shows "GetLatestFDKVersion w st = Panic NilDereference"
  using assms
  by (simp add: GetLatestFDKVersion_def getFDKLatestFromURL_def getURLResponse_def Let_def)

text \<open>
  Where the primary fails with a response (a status other than 200, or a body that does
  not decode to a document with a version entry) the fallback works as claimed.
\<close>

lemma failed_primary_falls_back:
  assumes "latestFdkVersion (helper st) = []" and "Getenv w versionEnv = []"
    and "client_Get w mavenVersionUrl False = (Some r1, e1)"
    and "e1 \<noteq> None \<or> StatusCode r1 \<noteq> 200 \<or> snd (Body r1) \<noteq> None
           \<or> snd (parseMavenResponse w (fst (Body r1))) \<noteq> None"
    and "client_Get w bintrayVersionURL True = (Some r2, None)"
    and "StatusCode r2 = 200" and "Body r2 = (data, None)"
    and "json_Unmarshal w data [\<lparr>latest_version = []\<rparr>] = (d # ds, None)"
  shows "GetLatestFDKVersion w st =
           Return ((latest_version d, None),
             st\<lparr>helper := (helper st)\<lparr>latestFdkVersion := latest_version d,
                                      pomType := ''bintray''\<rparr>,
                requests := requests st @ [(mavenVersionUrl, False), (bintrayVersionURL, True)]\<rparr>)"
proof (cases "Body r1")
  case (Pair b1 be1)
  with assms show ?thesis
    by (cases be1)
       (auto simp add: GetLatestFDKVersion_def getFDKLatestFromURL_def getURLResponse_def
          parseBintrayResponse_def Let_def)
qed

lemma failed_primary_status_falls_back:
  \<open>GetLatestFDKVersion
     (stub_world env_unset
        (\<lambda>url insecure. if url = mavenVersionUrl then reply 503 []
                         else reply 200 ''[{"latest_version":"2.3.1"}]''))
     fresh_state
   = Return ((''2.3.1'', None),
       fresh_state\<lparr>helper := fresh_helper\<lparr>latestFdkVersion := ''2.3.1'', pomType := ''bintray''\<rparr>,
                   requests := [(mavenVersionUrl, False), (bintrayVersionURL, True)]\<rparr>)\<close>
  by (simp add: GetLatestFDKVersion_def getFDKLatestFromURL_def getURLResponse_def
      parseBintrayResponse_def stub_world_def stub_json_Unmarshal_def env_unset_def reply_def
      fresh_state_def fresh_helper_def Let_def mavenVersionUrl_def bintrayVersionURL_def)

text \<open>
  C9. Claimed: \<open>parseBintrayResponse\<close> is total on well-formed JSON, the empty array
  \<open>[]\<close> included, and never indexes out of bounds. The code does not check the length
  (as \<open>parseMavenResponse\<close> does for its version list): on the body \<open>[]\<close> the decoder
  leaves a slice of length 0 and \<open>parsedResp[0]\<close> panics.
\<close>

theorem empty_array_panics:
  "parseBintrayResponse (stub_world env_unset net_down) ''[]'' = Panic IndexOutOfRange"
  by (simp add: parseBintrayResponse_def stub_world_def stub_json_Unmarshal_def)

lemma parseBintrayResponse_empty:
  "json_Unmarshal w data [\<lparr>latest_version = []\<rparr>] = ([], None) \<Longrightarrow>
     parseBintrayResponse w data = Panic IndexOutOfRange"
  by (simp add: parseBintrayResponse_def)

text \<open>On a decoded array with at least one element the first element's field is returned.\<close>

lemma parseBintrayResponse_nonempty:
  "json_Unmarshal w data [\<lparr>latest_version = []\<rparr>] = (d # ds, None) \<Longrightarrow>
     parseBintrayResponse w data = Return (latest_version d, None)"
  by (simp add: parseBintrayResponse_def)

section \<open>Boilerplate generation: the claims\<close>

text \<open>
  C5. For every target directory in which \<open>pom.xml\<close> already exists,
  \<open>GenerateBoilerplate\<close> returns \<open>ErrBoilerplateExists\<close> and the file system after the
  call is the file system before it: nothing is written.
\<close>

theorem existing_manifest_no_writes:
  assumes "exists (fs st) (path @ [''pom.xml''])"
  shows "\<exists>st'. GenerateBoilerplate w path st = Return (Some (ErrBoilerplateExists w), st')
               \<and> fs st' = fs st"
  using assms by (simp add: GenerateBoilerplate_def)

theorem existing_manifest_no_writes_witness:
  "exists (fs (fresh_state\<lparr>fs := dir_with_pom\<rparr>)) ([''fn''] @ [''pom.xml''])
   \<and> (\<exists>st'. GenerateBoilerplate (stub_world env_unset net_down) [''fn'']
                (fresh_state\<lparr>fs := dir_with_pom\<rparr>)
              = Return (Some (errors_New ''Function boilerplate already exists''), st')
            \<and> fs st' = dir_with_pom)"
proof -
  have h: "exists (fs (fresh_state\<lparr>fs := dir_with_pom\<rparr>)) ([''fn''] @ [''pom.xml''])"
    by (simp add: exists_def dir_with_pom_def)
  from existing_manifest_no_writes [OF h, of "stub_world env_unset net_down"] h
  show ?thesis by (simp add: stub_world_def)
qed

text \<open>
  C10. \<open>GenerateBoilerplate\<close> looks for \<open>pom.xml\<close> before it resolves the FDK version:
  where the file exists it returns \<open>ErrBoilerplateExists\<close> whatever the network and the
  environment are, makes no request and leaves the helper's cache as it was. The
  witness is a world in which resolution itself would panic.
\<close>

theorem existing_manifest_before_resolution:
  assumes "exists (fs st) (path @ [''pom.xml''])"
  shows "\<exists>st'. GenerateBoilerplate w path st = Return (Some (ErrBoilerplateExists w), st')
               \<and> requests st' = requests st \<and> helper st' = helper st"
  using assms by (simp add: GenerateBoilerplate_def)

theorem existing_manifest_before_resolution_witness:
  "exists (fs (fresh_state\<lparr>fs := dir_with_pom\<rparr>)) ([''fn''] @ [''pom.xml''])
   \<and> GetLatestFDKVersion (stub_world env_unset net_down) (fresh_state\<lparr>fs := dir_with_pom\<rparr>)
       = Panic NilDereference
   \<and> (\<exists>st'. GenerateBoilerplate (stub_world env_unset net_down) [''fn'']
                (fresh_state\<lparr>fs := dir_with_pom\<rparr>)
              = Return (Some (errors_New ''Function boilerplate already exists''), st')
            \<and> requests st' = [] \<and> helper st' = fresh_helper)"
proof -
  have h: "exists (fs (fresh_state\<lparr>fs := dir_with_pom\<rparr>)) ([''fn''] @ [''pom.xml''])"
    by (simp add: exists_def dir_with_pom_def)
  have p: "GetLatestFDKVersion (stub_world env_unset net_down) (fresh_state\<lparr>fs := dir_with_pom\<rparr>)
             = Panic NilDereference"
    by (simp add: GetLatestFDKVersion_def getFDKLatestFromURL_def getURLResponse_def
        stub_world_def env_unset_def net_down_def fresh_state_def fresh_helper_def Let_def)
  from existing_manifest_before_resolution [OF h, of "stub_world env_unset net_down"] h p
  show ?thesis by (simp add: stub_world_def fresh_state_def)
qed

subsection \<open>The version written into the manifest\<close>

text \<open>
  The closing tag has no proper overlap with itself (its first character occurs in it
  once), so in \<open>v @ </fdk.version> ...\<close> its first occurrence is the one after \<open>v\<close>
  unless \<open>v\<close> contains the tag.
\<close>

lemma prefix_overlap:
  assumes "t \<notin> set ts" and "u \<noteq> []" and "prefix (t # ts) (u @ (t # ts) @ rest)"
  shows "prefix (t # ts) u"
proof (rule ccontr)
  assume n: "\<not> prefix (t # ts) u"
  from assms(3) have "prefix (t # ts) u \<or> (\<exists>us. t # ts = u @ us \<and> prefix us ((t # ts) @ rest))"
    by (simp only: prefix_append)
  with n obtain us where us1: "t # ts = u @ us" and us2: "prefix us ((t # ts) @ rest)"
    by blast
  have "us \<noteq> []"
  proof
    assume "us = []"
    with us1 have "u = t # ts" by simp
    with n show False by simp
  qed
  then obtain x xs where usx: "us = x # xs" by (cases us) auto
  from us2 have "x = t" unfolding usx by simp
  from assms(2) obtain a as where ua: "u = a # as" by (cases u) auto
  from us1 have "ts = as @ x # xs" unfolding ua usx by simp
  then have "x \<in> set ts" by simp
  with assms(1) \<open>x = t\<close> show False by simp
qed

lemma before_tag_first:
  assumes "t \<notin> set ts" and "\<not> sublist (t # ts) v" and "prefix (t # ts) rest"
  shows "before_tag (t # ts) (v @ rest) = Some v"
proof -
  from assms(3) obtain r where r: "rest = (t # ts) @ r" by (auto simp: prefix_def)
  from assms(2) show ?thesis unfolding r
  proof (induction v)
    case Nil
    show ?case by simp
  next
    case (Cons a v)
    from Cons.prems have np: "\<not> prefix (t # ts) (a # v)" and ns: "\<not> sublist (t # ts) v"
      by (simp_all add: sublist_Cons_right)
    from np prefix_overlap [OF assms(1), of "a # v" r]
    have "\<not> prefix (t # ts) ((a # v) @ (t # ts) @ r)" by blast
    then have "\<not> prefix (t # ts) (a # (v @ (t # ts) @ r))" by simp
    with Cons.IH [OF ns] show ?case by (simp del: prefix_Cons)
  qed
qed

lemma before_close:
  "\<not> sublist ''</fdk.version>'' v \<Longrightarrow> prefix ''</fdk.version>'' rest \<Longrightarrow>
     before_tag ''</fdk.version>'' (v @ rest) = Some v"
  by (rule before_tag_first) simp_all

lemma maven_field:
  "\<not> sublist ''</fdk.version>'' v \<Longrightarrow>
     fdk_version_field (Sprintf mavenPomFile [S v, S jv, S jv]) = Some v"
  by (simp add: mavenPomFile_def fdk_version_field_def before_close Sprintf_eval after_tag_eval
      del: after_tag.simps before_tag.simps)

lemma bintray_field:
  "\<not> sublist ''</fdk.version>'' v \<Longrightarrow>
     fdk_version_field (Sprintf bintrayPomFile [S v, S jv, S jv]) = Some v"
  by (simp add: bintrayPomFile_def fdk_version_field_def before_close Sprintf_eval after_tag_eval
      del: after_tag.simps before_tag.simps)

lemma pom_field:
  "\<not> sublist ''</fdk.version>'' v \<Longrightarrow> fdk_version_field (pomFileContent v jv pType) = Some v"
  by (simp add: pomFileContent_def maven_field bintray_field)

lemma WriteFile_frame:
  "ioutil_WriteFile p data f = (e, f') \<Longrightarrow> q \<noteq> p \<Longrightarrow> files f' q = files f q"
  by (auto simp: ioutil_WriteFile_def split: if_splits)

lemma WriteFile_written:
  "ioutil_WriteFile p data f = (None, f') \<Longrightarrow> files f' p = Some data"
  by (auto simp: ioutil_WriteFile_def split: if_splits)

lemma MkdirAll_frame: "os_MkdirAll p f = (e, f') \<Longrightarrow> files f' = files f"
  by (auto simp: os_MkdirAll_def split: if_splits)

lemma mkDirAndWriteFile_frame:
  assumes "mkDirAndWriteFile path dir filename content f = (e, f')"
    and "q \<noteq> path @ dir @ [filename]"
  shows "files f' q = files f q"
proof (cases "os_MkdirAll (path @ dir) f")
  case (Pair e1 f1)
  show ?thesis
  proof (cases e1)
    case None
    with Pair assms(1) have "ioutil_WriteFile (path @ dir @ [filename]) content f1 = (e, f')"
      by (simp add: mkDirAndWriteFile_def)
    from WriteFile_frame [OF this assms(2)] MkdirAll_frame [OF Pair] show ?thesis by simp
  next
    case (Some a)
    with Pair assms(1) MkdirAll_frame [OF Pair] show ?thesis
      by (simp add: mkDirAndWriteFile_def)
  qed
qed

lemma GenerateBoilerplate_manifest:
  assumes g: "GenerateBoilerplate w path st = Return (None, st2)"
    and r: "GetLatestFDKVersion w st = Return ((v, e), st1)"
  shows "files (fs st2) (path @ [''pom.xml''])
           = Some (pomFileContent v (version (helper st1)) (pomType (helper st1)))"
proof -
  let ?pom = "path @ [''pom.xml'']"
  let ?content = "pomFileContent v (version (helper st1)) (pomType (helper st1))"
  let ?main = "[''src'', ''main'', ''java'', ''com'', ''example'', ''fn'']"
  let ?test = "[''src'', ''test'', ''java'', ''com'', ''example'', ''fn'']"
  have ne: "\<not> exists (fs st) ?pom"
  proof
    assume "exists (fs st) ?pom"
    with g show False by (simp add: GenerateBoilerplate_def)
  qed
  have e: "e = None"
  proof (cases e)
    case (Some x)
    with g r ne show ?thesis by (simp add: GenerateBoilerplate_def)
  qed simp
  obtain e1 f1 where w1: "ioutil_WriteFile ?pom ?content (fs st1) = (e1, f1)"
    by (cases "ioutil_WriteFile ?pom ?content (fs st1)")
  obtain e2 f2 where w2:
    "mkDirAndWriteFile path ?main ''HelloFunction.java'' helloJavaSrcBoilerplate f1 = (e2, f2)"
    by (cases "mkDirAndWriteFile path ?main ''HelloFunction.java'' helloJavaSrcBoilerplate f1")
  obtain e3 f3 where w3:
    "mkDirAndWriteFile path ?test ''HelloFunctionTest.java'' helloJavaTestBoilerplate f2 = (e3, f3)"
    by (cases "mkDirAndWriteFile path ?test ''HelloFunctionTest.java'' helloJavaTestBoilerplate f2")
  have e1: "e1 = None"
  proof (cases e1)
    case (Some x)
    with g r ne e w1 show ?thesis by (simp add: GenerateBoilerplate_def Let_def)
  qed simp
  have e2: "e2 = None"
  proof (cases e2)
    case (Some x)
    with g r ne e w1 e1 w2 show ?thesis by (simp add: GenerateBoilerplate_def Let_def)
  qed simp
  from g r ne e w1 e1 w2 e2 w3 have st2: "fs st2 = f3"
    by (auto simp add: GenerateBoilerplate_def Let_def)
  from WriteFile_written w1 e1 have "files f1 ?pom = Some ?content" by blast
  moreover from mkDirAndWriteFile_frame [OF w2, of ?pom] have "files f2 ?pom = files f1 ?pom" by simp
  moreover from mkDirAndWriteFile_frame [OF w3, of ?pom] have "files f3 ?pom = files f2 ?pom" by simp
  ultimately show ?thesis using st2 by simp
qed

text \<open>
  The reader never returns a text that holds the closing tag, so the condition on \<open>v\<close>
  in the round trip below cannot be dropped.
\<close>

lemma before_tag_prefix: "before_tag tag xs = Some p \<Longrightarrow> prefix p xs"
proof (induction xs arbitrary: p)
  case Nil
  then show ?case by simp
next
  case (Cons c cs)
  show ?case
  proof (cases "prefix tag (c # cs)")
    case True
    with Cons.prems show ?thesis by simp
  next
    case False
    with Cons.prems obtain p' where p': "before_tag tag cs = Some p'" and p: "p = c # p'"
      by (auto simp del: prefix_Cons)
    from Cons.IH [OF p'] p show ?thesis by simp
  qed
qed

lemma before_tag_no_tag:
  assumes "tag \<noteq> []" and "before_tag tag xs = Some p"
  shows "\<not> sublist tag p"
  using assms(2)
proof (induction xs arbitrary: p)
  case Nil
  then show ?case by simp
next
  case (Cons c cs)
  show ?case
  proof (cases "prefix tag (c # cs)")
    case True
    with Cons.prems assms(1) show ?thesis by simp
  next
    case False
    with Cons.prems obtain p' where p': "before_tag tag cs = Some p'" and p: "p = c # p'"
      by (auto simp del: prefix_Cons)
    from before_tag_prefix [OF p'] have "prefix (c # p') (c # cs)" by simp
    with False have "\<not> prefix tag (c # p')"
      using prefix_order.trans by blast
    with Cons.IH [OF p'] show ?thesis unfolding p by (simp add: sublist_Cons_right)
  qed
qed

lemma field_holds_no_closing_tag:
  "fdk_version_field content = Some v \<Longrightarrow> \<not> sublist ''</fdk.version>'' v"
  by (auto simp: fdk_version_field_def split: option.splits dest: before_tag_no_tag [rotated])

text \<open>
  C6. Claimed: for every resolved version \<open>v\<close> the manifest written by
  \<open>GenerateBoilerplate\<close> reads back as \<open>v\<close>. The templates take \<open>v\<close> through \<open>%s\<close> as
  it is, so this fails for a \<open>v\<close> that holds the closing tag itself. Proved instead: for
  every resolved \<open>v\<close> that does not contain \<open></fdk.version>\<close>, a successful
  \<open>GenerateBoilerplate\<close> leaves at \<open>pom.xml\<close> the content \<open>pomFileContent\<close> builds from
  \<open>v\<close>, the helper's Java version and the cached \<open>pomType\<close>, and the version field of that
  content is \<open>v\<close>; so it is for the \<open>maven\<close> template and for the \<open>bintray\<close> template.
\<close>

theorem manifest_version_roundtrip:
  assumes "\<not> sublist ''</fdk.version>'' v"
    and "GetLatestFDKVersion w st = Return ((v, None), st1)"
    and "GenerateBoilerplate w path st = Return (None, st2)"
  shows "files (fs st2) (path @ [''pom.xml''])
           = Some (pomFileContent v (version (helper st1)) (pomType (helper st1)))
         \<and> fdk_version_field (pomFileContent v (version (helper st1)) (pomType (helper st1))) = Some v
         \<and> fdk_version_field (Sprintf mavenPomFile [S v, S jv, S jv]) = Some v
         \<and> fdk_version_field (Sprintf bintrayPomFile [S v, S jv, S jv]) = Some v"
  using assms GenerateBoilerplate_manifest [OF assms(3) assms(2)]
  by (simp add: pom_field maven_field bintray_field)

theorem manifest_version_roundtrip_witness:
  "\<not> sublist ''</fdk.version>'' ''1.0.198''
   \<and> GetLatestFDKVersion
        (stub_world env_unset (\<lambda>url insecure. if url = mavenVersionUrl then reply 200 stub_xml_body else net_down url insecure))
        fresh_state
       = Return ((''1.0.198'', None),
           fresh_state\<lparr>helper := fresh_helper\<lparr>latestFdkVersion := ''1.0.198'', pomType := ''maven''\<rparr>,
                       requests := [(mavenVersionUrl, False)]\<rparr>)
   \<and> manifest_after
        (GenerateBoilerplate
           (stub_world env_unset (\<lambda>url insecure. if url = mavenVersionUrl then reply 200 stub_xml_body else net_down url insecure))
           [''fn''] fresh_state)
        [''fn'', ''pom.xml'']
       = Some (pomFileContent ''1.0.198'' ''11'' ''maven'')
   \<and> fdk_version_field (pomFileContent ''1.0.198'' ''11'' ''maven'') = Some ''1.0.198''"
proof -
  let ?w = "stub_world env_unset (\<lambda>url insecure. if url = mavenVersionUrl then reply 200 stub_xml_body else net_down url insecure)"
  let ?st1 = "fresh_state\<lparr>helper := fresh_helper\<lparr>latestFdkVersion := ''1.0.198'', pomType := ''maven''\<rparr>,
                       requests := [(mavenVersionUrl, False)]\<rparr>"
  have h: "\<not> sublist ''</fdk.version>'' ''1.0.198''"
    by (simp add: sublist_code)
  have r: "GetLatestFDKVersion ?w fresh_state = Return ((''1.0.198'', None), ?st1)"
    by (simp add: GetLatestFDKVersion_def getFDKLatestFromURL_def getURLResponse_def
        parseMavenResponse_def zero_ParsedResponse_def stub_world_def stub_xml_Unmarshal_def env_unset_def reply_def
        fresh_state_def fresh_helper_def Let_def)
  have "\<exists>st2. GenerateBoilerplate ?w [''fn''] fresh_state = Return (None, st2)"
    by (simp add: GenerateBoilerplate_def GetLatestFDKVersion_def getFDKLatestFromURL_def
        getURLResponse_def parseMavenResponse_def zero_ParsedResponse_def stub_world_def stub_xml_Unmarshal_def
        env_unset_def reply_def fresh_state_def fresh_helper_def empty_dir_def exists_def
        ioutil_WriteFile_def os_MkdirAll_def mkDirAndWriteFile_def Let_def)
  then obtain st2 where g: "GenerateBoilerplate ?w [''fn''] fresh_state = Return (None, st2)" ..
  from manifest_version_roundtrip [OF h r g]
  have "files (fs st2) [''fn'', ''pom.xml''] = Some (pomFileContent ''1.0.198'' ''11'' ''maven'')"
    and "fdk_version_field (pomFileContent ''1.0.198'' ''11'' ''maven'') = Some ''1.0.198''"
    by (simp_all add: fresh_state_def fresh_helper_def)
  with h r g show ?thesis by (simp add: manifest_after_def)
qed

text \<open>
  The claim as stated fails: with the override set to \<open>1.0</fdk.version>\<close> that value
  is the resolved version, the manifest is written, and its version field reads \<open>1.0\<close>.
\<close>

theorem roundtrip_broken_by_markup:
  "GetLatestFDKVersion (stub_world (env_override ''1.0</fdk.version>'') net_down) fresh_state
     = Return ((''1.0</fdk.version>'', None), fresh_state)
   \<and> manifest_after
        (GenerateBoilerplate (stub_world (env_override ''1.0</fdk.version>'') net_down)
           [''fn''] fresh_state)
        [''fn'', ''pom.xml'']
       = Some (pomFileContent ''1.0</fdk.version>'' ''11'' [])
   \<and> fdk_version_field (pomFileContent ''1.0</fdk.version>'' ''11'' []) = Some ''1.0''"
proof (intro conjI)
  show "GetLatestFDKVersion (stub_world (env_override ''1.0</fdk.version>'') net_down) fresh_state
     = Return ((''1.0</fdk.version>'', None), fresh_state)"
    by (simp add: GetLatestFDKVersion_def stub_world_def env_override_def fresh_state_def
        fresh_helper_def)
  show "manifest_after
        (GenerateBoilerplate (stub_world (env_override ''1.0</fdk.version>'') net_down)
           [''fn''] fresh_state)
        [''fn'', ''pom.xml'']
       = Some (pomFileContent ''1.0</fdk.version>'' ''11'' [])"
    by (simp add: manifest_after_def GenerateBoilerplate_def GetLatestFDKVersion_def
        stub_world_def env_override_def versionEnv_def
        fresh_state_def fresh_helper_def empty_dir_def exists_def
        ioutil_WriteFile_def os_MkdirAll_def mkDirAndWriteFile_def Let_def)
  show "fdk_version_field (pomFileContent ''1.0</fdk.version>'' ''11'' []) = Some ''1.0''"
    by (simp add: pomFileContent_def bintrayPomFile_def fdk_version_field_def Sprintf_eval
        after_tag_eval del: after_tag.simps)
qed

section \<open>The build stage: the claims\<close>

text \<open>
  C7. \<open>DockerfileBuildCmds\<close> returns five instructions in this order: \<open>ENV MAVEN_OPTS\<close>
  with the computed options, \<open>ADD pom.xml /function/pom.xml\<close>, a \<open>RUN\<close> of \<open>mvn\<close> that
  fetches the dependencies and carries the flag \<open>--fail-never\<close>, \<open>ADD src
  /function/src\<close>, and \<open>RUN mvn package\<close>.
\<close>

theorem build_stage_instructions:
  \<open>length (DockerfileBuildCmds w) = 5
   \<and> DockerfileBuildCmds w ! 0 = ''ENV MAVEN_OPTS '' @ mavenOpts w
   \<and> DockerfileBuildCmds w ! 1 = ''ADD pom.xml /function/pom.xml''
   \<and> prefix ''RUN ["mvn", "package", "dependency:copy-dependencies", '' (DockerfileBuildCmds w ! 2)
   \<and> sublist ''"--fail-never"'' (DockerfileBuildCmds w ! 2)
   \<and> DockerfileBuildCmds w ! 3 = ''ADD src /function/src''
   \<and> DockerfileBuildCmds w ! 4 = ''RUN ["mvn", "package"]''\<close>
  by (simp add: DockerfileBuildCmds_def Sprintf_eval sublist_code)

lemma Replace_comma:
  "strings_Replace_all s '','' ''|'' = map (\<lambda>c. if c = CHR '','' then CHR ''|'' else c) s"
proof (induction s)
  case Nil
  show ?case by (simp add: strings_Replace_all.simps)
next
  case (Cons a s)
  show ?case
  proof (cases "a = CHR '',''")
    case True
    with Cons show ?thesis by (subst strings_Replace_all.simps) simp
  next
    case False
    with Cons show ?thesis by (subst strings_Replace_all.simps) simp
  qed
qed

text \<open>
  C8. Claimed: for every value of \<open>http_proxy\<close>, \<open>https_proxy\<close> and \<open>no_proxy\<close> the
  options carry the proxy host and port of both URLs. The code writes them only where
  \<open>url.Parse\<close> returns no error. Proved instead: \<open>MAVEN_OPTS\<close>, the operand of the first
  build-stage instruction, is, in this order, \<open>http.proxyHost\<close> and \<open>http.proxyPort\<close> from
  the host name and port of \<open>http_proxy\<close> where that value parses as a URL and nothing
  where it does not, the same for \<open>https_proxy\<close>, \<open>http.nonProxyHosts\<close> set to the
  value of \<open>no_proxy\<close> with every comma replaced by a pipe, and the local repository.
\<close>

theorem mavenOpts_translation:
  "mavenOpts w =
     (case url_Parse w (Getenv w ''http_proxy'') of
        Inr u \<Rightarrow> ''-Dhttp.proxyHost='' @ Hostname u @ '' -Dhttp.proxyPort='' @ Port u @ '' ''
      | Inl e \<Rightarrow> []) @
     (case url_Parse w (Getenv w ''https_proxy'') of
        Inr u \<Rightarrow> ''-Dhttps.proxyHost='' @ Hostname u @ '' -Dhttps.proxyPort='' @ Port u @ '' ''
      | Inl e \<Rightarrow> []) @
     ''-Dhttp.nonProxyHosts='' @
     map (\<lambda>c. if c = CHR '','' then CHR ''|'' else c) (Getenv w ''no_proxy'') @
     '' -Dmaven.repo.local=/usr/share/maven/ref/repository''
   \<and> hd (DockerfileBuildCmds w) = ''ENV MAVEN_OPTS '' @ mavenOpts w"
  by (simp add: mavenOpts_def DockerfileBuildCmds_def Sprintf_eval Replace_comma Let_def
      split: sum.splits)

text \<open>
  The claim as stated fails: with \<open>http_proxy\<close> set to a URL whose port is not a
  number, the options hold no \<open>http.proxyHost\<close> and no \<open>http.proxyPort\<close>.
\<close>

theorem unparseable_proxy_dropped:
  "mavenOpts (stub_world
      (env_proxies ''http://proxy.example.com:port'' ''https://secure.example.com:3129''
         ''localhost,127.0.0.1'') net_down)
   = ''-Dhttps.proxyHost=secure.example.com -Dhttps.proxyPort=3129 -Dhttp.nonProxyHosts=localhost|127.0.0.1 -Dmaven.repo.local=/usr/share/maven/ref/repository''
   \<and> \<not> sublist ''-Dhttp.proxyHost''
         (mavenOpts (stub_world
            (env_proxies ''http://proxy.example.com:port'' ''https://secure.example.com:3129''
               ''localhost,127.0.0.1'') net_down))"
  by (simp add: mavenOpts_def stub_world_def env_proxies_def stub_url_Parse_def Sprintf_eval
      Replace_comma sublist_code)

end
